theory Spec2Isabelle
  imports Main
begin

section \<open>JavaScript values\<close>

text \<open>
  The values the SDK handles at run time: request bodies, query-parameter values and
  parsed JSON payloads.  \<open>Num n\<close> is the number \<open>n\<close> for a safe integer \<open>n\<close>, one of
  magnitude at most \<open>2^53 - 1\<close> (all numeric parameters of the API, HTTP statuses and the
  timeout in milliseconds are such integers); larger integers, fractional numbers,
  \<open>NaN\<close> and the infinities are outside the model, and a statement that depends on how
  a number is written as a string assumes \<open>safe_integer\<close> of it.  An object is the list
  of its own enumerable properties in enumeration order (the order of \<open>Object.entries\<close>).
\<close>

datatype jsval =
    Undefined
  | Null
  | Bool bool
  | Num int
  | Str string
  | Arr "jsval list"
  | Obj "(string \<times> jsval) list"

text \<open>ToBoolean: what \<open>v ? a : b\<close> and \<open>v || d\<close> test.\<close>

fun truthy :: "jsval \<Rightarrow> bool" where
  "truthy Undefined = False"
| "truthy Null = False"
| "truthy (Bool b) = b"
| "truthy (Num n) = (n \<noteq> 0)"
| "truthy (Str s) = (s \<noteq> [])"
| "truthy (Arr xs) = True"
| "truthy (Obj ps) = True"

text \<open>\<open>a || d\<close>: the left operand when it is truthy, the right one otherwise.\<close>

definition or_else :: "jsval \<Rightarrow> jsval \<Rightarrow> jsval" where
  "or_else a d = (if truthy a then a else d)"

text \<open>
  Reading one of the properties the SDK reads (\<open>error\<close>, \<open>message\<close>, \<open>code\<close>,
  \<open>details\<close>, \<open>data\<close>, \<open>uploadUrl\<close>, \<open>mediaUrl\<close>) from a value that is neither
  \<open>null\<close> nor \<open>undefined\<close>: an object gives the property's value, or \<open>undefined\<close>
  when it has none of that name; a primitive or an array has no such property.
\<close>

fun own_prop :: "jsval \<Rightarrow> string \<Rightarrow> jsval" where
  "own_prop (Obj ps) name = (case map_of ps name of None \<Rightarrow> Undefined | Some v \<Rightarrow> v)"
| "own_prop v name = Undefined"

text \<open>\<open>v?.name\<close>: \<open>undefined\<close> when \<open>v\<close> is \<open>null\<close> or \<open>undefined\<close>.\<close>

definition opt_chain :: "jsval \<Rightarrow> string \<Rightarrow> jsval" where
  "opt_chain v name = (if v = Null \<or> v = Undefined then Undefined else own_prop v name)"

text \<open>\<open>Number.isSafeInteger\<close>: the integers from \<open>-(2^53 - 1)\<close> to \<open>2^53 - 1\<close>.\<close>

definition safe_integer :: "int \<Rightarrow> bool" where
  "safe_integer n = (- 9007199254740991 \<le> n \<and> n \<le> 9007199254740991)"

text \<open>
  Decimal rendering of a safe integer, as \<open>String(n)\<close> and a template literal give it:
  all its digits, with a minus sign when it is negative.  Beyond the safe integers
  JavaScript writes the shortest digits that read back as the same number, and an exponent
  from \<open>10^21\<close> on; \<open>Number_toString\<close> is not that rendering there.
\<close>

definition digit :: "nat \<Rightarrow> char" where
  "digit d = ''0123456789'' ! d"

fun digits :: "nat \<Rightarrow> string" where
  "digits n = (if n < 10 then [digit n] else digits (n div 10) @ [digit (n mod 10)])"

declare digits.simps [simp del]

definition Number_toString :: "int \<Rightarrow> string" where
  "Number_toString i = (if i < 0 then CHR ''-'' # digits (nat (- i)) else digits (nat i))"

text \<open>
  ToString, as applied by \<open>String(v)\<close> and by the constructor of \<open>Error\<close> to its message.
  An array is the join of its elements with commas, \<open>null\<close> and \<open>undefined\<close> elements
  giving the empty string; an object is one that does not redefine \<open>toString\<close> or
  \<open>valueOf\<close>.  A number is written as JavaScript writes it when it is a safe integer.
\<close>

fun ToString :: "jsval \<Rightarrow> string" and join_elements :: "jsval list \<Rightarrow> string" where
  "ToString Undefined = ''undefined''"
| "ToString Null = ''null''"
| "ToString (Bool b) = (if b then ''true'' else ''false'')"
| "ToString (Num n) = Number_toString n"
| "ToString (Str s) = s"
| "ToString (Arr xs) = join_elements xs"
| "ToString (Obj ps) = ''[object Object]''"
| "join_elements [] = []"
| "join_elements (x # xs) =
     (if x = Null \<or> x = Undefined then [] else ToString x)
     @ (if xs = [] then [] else CHR '','' # join_elements xs)"

section \<open>Configuration and construction of the client\<close>

text \<open>
  \<open>SchedulifyXConfig\<close>: \<open>apiKey\<close> is required, \<open>baseUrl\<close> and \<open>timeout\<close> are optional
  (\<open>None\<close> is an absent field).
\<close>

record SchedulifyXConfig =
  apiKey :: string
  baseUrl :: "string option"
  timeout :: "int option"

text \<open>The constructor's argument: \<open>SchedulifyXConfig | string\<close>.\<close>

datatype config_arg = KeyString string | ConfigRecord SchedulifyXConfig

text \<open>The private fields of a constructed client.\<close>

record SchedulifyX =
  this_apiKey :: string
  this_baseUrl :: string
  this_timeout :: int

definition default_baseUrl :: string where
  "default_baseUrl = ''https://api.schedulifyx.com''"

definition default_timeout :: int where
  "default_timeout = 30000"

text \<open>
  \<open>constructor(config)\<close>.  For a record, \<open>config.baseUrl || default\<close> and
  \<open>config.timeout || 30000\<close>: an absent field reads as \<open>undefined\<close>, and the default is
  taken whenever the field's value is falsy.
\<close>

fun new_SchedulifyX :: "config_arg \<Rightarrow> SchedulifyX" where
  "new_SchedulifyX (KeyString s) =
     \<lparr>this_apiKey = s, this_baseUrl = default_baseUrl, this_timeout = default_timeout\<rparr>"
| "new_SchedulifyX (ConfigRecord c) =
     \<lparr>this_apiKey = apiKey c,
      this_baseUrl = (case baseUrl c of
                        None \<Rightarrow> default_baseUrl
                      | Some b \<Rightarrow> if truthy (Str b) then b else default_baseUrl),
      this_timeout = (case timeout c of
                        None \<Rightarrow> default_timeout
                      | Some t \<Rightarrow> if truthy (Num t) then t else default_timeout)\<rparr>"

section \<open>Errors and promises\<close>

text \<open>
  \<open>class SchedulifyXError extends Error\<close>.  \<open>message\<close> is a string because the constructor
  of \<open>Error\<close> converts its argument; \<open>code\<close> and \<open>details\<close> are stored as they are
  given.
\<close>

record SchedulifyXError =
  message :: string
  code :: jsval
  status :: nat
  details :: jsval

definition new_SchedulifyXError :: "jsval \<Rightarrow> jsval \<Rightarrow> nat \<Rightarrow> jsval \<Rightarrow> SchedulifyXError" where
  "new_SchedulifyXError m c s d =
     \<lparr>message = (if m = Undefined then [] else ToString m), code = c, status = s, details = d\<rparr>"

text \<open>
  What a \<open>throw\<close> or a rejected promise carries: a \<open>SchedulifyXError\<close>, another instance
  of \<open>Error\<close> with its \<open>name\<close> and \<open>message\<close> (a \<open>TypeError\<close>, a \<open>SyntaxError\<close>, the
  \<open>DOMException\<close> of an aborted fetch), or a value that is not an \<open>Error\<close>.
\<close>

datatype thrown =
    SdkError SchedulifyXError
  | JsError string string
  | NonError jsval

text \<open>
  The state a promise ends in.  \<open>Pending\<close> is a promise that does not settle while its
  caller waits: for a fetch that carries the signal of the dispatcher's timer, one that has
  not settled when the timer fires; without a timer, one that never settles.
\<close>

datatype 'a promise = Fulfilled 'a | Rejected thrown | Pending

text \<open>The \<open>TypeError\<close> of reading a property of \<open>null\<close> or \<open>undefined\<close> (V8's wording).\<close>

definition cannot_read :: "jsval \<Rightarrow> string \<Rightarrow> thrown" where
  "cannot_read v name =
     JsError ''TypeError''
       (''Cannot read properties of '' @ ToString v @ '' (reading '' @ [CHR 39] @ name @ [CHR 39] @ '')'')"

text \<open>\<open>v.name\<close>, which throws on \<open>null\<close> and \<open>undefined\<close>.\<close>

definition get_prop :: "jsval \<Rightarrow> string \<Rightarrow> thrown + jsval" where
  "get_prop v name =
     (if v = Null \<or> v = Undefined then Inl (cannot_read v name) else Inr (own_prop v name))"

section \<open>The platform: URL, fetch, Response\<close>

text \<open>
  A \<open>URL\<close> object: the text of everything but the query, and the list behind
  \<open>url.searchParams\<close>.
\<close>

record URL =
  location :: string
  searchParams :: "(string \<times> string) list"

text \<open>
  \<open>URLSearchParams.set(name, value)\<close>: the first pair of that name takes the value and the
  later pairs of that name are removed; with no pair of that name, one is appended.
\<close>

fun URLSearchParams_set :: "string \<Rightarrow> string \<Rightarrow> (string \<times> string) list \<Rightarrow> (string \<times> string) list" where
  "URLSearchParams_set name v [] = [(name, v)]"
| "URLSearchParams_set name v (p # ps) =
     (if fst p = name then (name, v) # filter (\<lambda>q. fst q \<noteq> name) ps
      else p # URLSearchParams_set name v ps)"

type_synonym blob = string

text \<open>
  A request body: \<open>JSON_stringify v\<close> stands for the text \<open>JSON.stringify(v)\<close>, \<open>BlobBody\<close>
  for a file's content.
\<close>

datatype BodyInit = JSON_stringify jsval | BlobBody blob

text \<open>
  The second argument of \<open>fetch\<close>; \<open>http_method\<close> is its \<open>method\<close> option.  \<open>signal\<close>
  tells whether the signal of the call's \<open>AbortController\<close> is attached.
\<close>

record RequestInit =
  http_method :: string
  headers :: "(string \<times> string) list"
  body :: "BodyInit option"
  signal :: bool

text \<open>
  The first argument of \<open>fetch\<close>: \<open>URL_toString u\<close> stands for the text \<open>u.toString()\<close>,
  \<open>UrlValue v\<close> is a value handed over as it is.
\<close>

datatype RequestInfo = URL_toString URL | UrlValue jsval

text \<open>
  A \<open>Response\<close>: its status and what \<open>response.json()\<close> gives (rejected when the body is
  not JSON or cannot be read).  \<open>response.ok\<close> is true for the statuses 200 to 299.
\<close>

record Response =
  response_status :: nat
  response_json :: "jsval promise"

definition response_ok :: "Response \<Rightarrow> bool" where
  "response_ok r = (200 \<le> response_status r \<and> response_status r \<le> 299)"

text \<open>
  The platform a call runs on: \<open>new URL(text)\<close>, which throws (\<open>None\<close>) on text that is not
  a URL, and \<open>fetch\<close>, whose answer is the network's.
\<close>

record platform =
  new_URL :: "string \<Rightarrow> URL option"
  fetch :: "RequestInfo \<Rightarrow> RequestInit \<Rightarrow> Response promise"

text \<open>What a call does to the platform, in order.\<close>

datatype effect =
    SetTimeout int
  | Fetch RequestInfo RequestInit
  | Abort
  | ClearTimeout
  | ReadJson

section \<open>The request dispatcher\<close>

text \<open>
  \<open>Object.entries(queryParams).forEach(...)\<close>: every entry whose value is not
  \<open>undefined\<close> is set on the URL's search parameters as \<open>String(value)\<close>.
\<close>

fun forEach_entry :: "URL \<Rightarrow> (string \<times> jsval) list \<Rightarrow> URL" where
  "forEach_entry url [] = url"
| "forEach_entry url (entry # entries) =
     forEach_entry
       (if snd entry \<noteq> Undefined
        then url\<lparr>searchParams := URLSearchParams_set (fst entry) (ToString (snd entry)) (searchParams url)\<rparr>
        else url)
       entries"

text \<open>
  The URL a call fetches: \<open>new URL(`${this.baseUrl}${endpoint}`)\<close>, then the query
  parameters when a map is given.  \<open>None\<close> when \<open>new URL\<close> throws.
\<close>

definition request_url :: "platform \<Rightarrow> SchedulifyX \<Rightarrow> string \<Rightarrow> (string \<times> jsval) list option \<Rightarrow> URL option" where
  "request_url P this endpoint queryParams =
     (case new_URL P (this_baseUrl this @ endpoint) of
        None \<Rightarrow> None
      | Some url \<Rightarrow>
          (case queryParams of
             None \<Rightarrow> Some url
           | Some entries \<Rightarrow> Some (forEach_entry url entries)))"

text \<open>The options handed to \<open>fetch\<close>.\<close>

definition request_init :: "SchedulifyX \<Rightarrow> string \<Rightarrow> jsval \<Rightarrow> RequestInit" where
  "request_init this meth payload =
     \<lparr>http_method = meth,
      headers = [(''Authorization'', ''Bearer '' @ this_apiKey this),
                 (''Content-Type'', ''application/json'')],
      body = (if truthy payload then Some (JSON_stringify payload) else None),
      signal = True\<rparr>"

text \<open>
  What the \<open>!response.ok\<close> branch throws, given the value of \<open>errorData\<close>: the
  \<open>SchedulifyXError\<close> built from \<open>errorData.error\<close>, or the \<open>TypeError\<close> of reading
  \<open>error\<close> from \<open>null\<close>.
\<close>

definition http_failure :: "jsval \<Rightarrow> nat \<Rightarrow> thrown" where
  "http_failure errorData st =
     (case get_prop errorData ''error'' of
        Inl e \<Rightarrow> e
      | Inr err \<Rightarrow>
          SdkError (new_SchedulifyXError
            (or_else (opt_chain err ''message'') (Str (''HTTP '' @ digits st)))
            (or_else (opt_chain err ''code'') (Str ''http_error''))
            st
            (opt_chain err ''details'')))"

text \<open>The \<open>catch (error)\<close> block: what it throws for what it caught.\<close>

fun request_catch :: "thrown \<Rightarrow> thrown" where
  "request_catch (SdkError e) = SdkError e"
| "request_catch (JsError name msg) =
     (if name = ''AbortError''
      then SdkError (new_SchedulifyXError (Str ''Request timeout'') (Str ''timeout'') 408 Undefined)
      else SdkError (new_SchedulifyXError (Str msg) (Str ''network_error'') 0 Undefined))"
| "request_catch (NonError v) =
     SdkError (new_SchedulifyXError (Str ''Network error'') (Str ''network_error'') 0 Undefined)"

text \<open>What a fetch rejects with once its signal is aborted.\<close>

definition AbortError :: thrown where
  "AbortError = JsError ''AbortError'' ''This operation was aborted''"

text \<open>
  \<open>request(method, endpoint, body, queryParams)\<close>: the state its promise ends in and the
  effects of the call.
  \<^item> \<open>new URL\<close> runs before the \<open>try\<close>: its \<open>TypeError\<close> is not caught.
  \<^item> A fetch still pending when the timer fires is aborted by the timer's callback and
    rejects with an \<open>AbortError\<close>, which the \<open>catch\<close> block receives.
  \<^item> On a status that is not ok, \<open>response.json()\<close> is awaited with \<open>.catch(() => ({}))\<close>,
    and what is thrown inside the \<open>try\<close> goes through the \<open>catch\<close> block.
  \<^item> On an ok status the promise of \<open>response.json()\<close> is returned without \<open>await\<close>: the
    call ends in the state of that promise, and the \<open>catch\<close> block does not see its
    rejection.
\<close>

definition request ::
  "platform \<Rightarrow> SchedulifyX \<Rightarrow> string \<Rightarrow> string \<Rightarrow> jsval \<Rightarrow> (string \<times> jsval) list option
     \<Rightarrow> jsval promise \<times> effect list" where
  "request P this meth endpoint payload queryParams =
     (case request_url P this endpoint queryParams of
        None \<Rightarrow> (Rejected (JsError ''TypeError'' ''Invalid URL''), [])
      | Some url \<Rightarrow>
          (let init = request_init this meth payload;
               started = [SetTimeout (this_timeout this), Fetch (URL_toString url) init]
           in case fetch P (URL_toString url) init of
                Pending \<Rightarrow> (Rejected (request_catch AbortError), started @ [Abort, ClearTimeout])
              | Rejected e \<Rightarrow> (Rejected (request_catch e), started @ [ClearTimeout])
              | Fulfilled response \<Rightarrow>
                  if \<not> response_ok response then
                    (case response_json response of
                       Pending \<Rightarrow> (Pending, started @ [ClearTimeout, ReadJson])
                     | Rejected e \<Rightarrow>
                         (Rejected (request_catch (http_failure (Obj []) (response_status response))),
                          started @ [ClearTimeout, ReadJson, ClearTimeout])
                     | Fulfilled errorData \<Rightarrow>
                         (Rejected (request_catch (http_failure errorData (response_status response))),
                          started @ [ClearTimeout, ReadJson, ClearTimeout]))
                  else (response_json response, started @ [ClearTimeout, ReadJson])))"

text \<open>The fetches among the effects of a call.\<close>

fun issued :: "effect list \<Rightarrow> (RequestInfo \<times> RequestInit) list" where
  "issued [] = []"
| "issued (Fetch u i # es) = (u, i) # issued es"
| "issued (e # es) = issued es"

section \<open>The resource call-sites\<close>

text \<open>
  One constructor for each method of \<open>posts\<close>, \<open>accounts\<close>, \<open>analytics\<close>, \<open>media\<close>,
  \<open>usage\<close>, \<open>queue\<close>, \<open>webhooks\<close> and \<open>tenants\<close> that is a single \<open>this.request(...)\<close>,
  with the method's arguments: identifiers are strings, \<open>data\<close> is the caller's object,
  \<open>params\<close> the caller's optional query object.
\<close>

type_synonym params = "(string \<times> jsval) list option"

datatype api_call =
    posts_list params
  | posts_get string
  | posts_create jsval
  | posts_update string jsval
  | posts_delete string
  | posts_publish string
  | accounts_list params
  | accounts_get string
  | accounts_getPinterestBoards string
  | analytics_overview
  | analytics_forAccount string params
  | analytics_list params
  | media_getUploadUrl jsval
  | usage
  | queue_getSlots string
  | queue_setSlots jsval
  | queue_deleteSlots string
  | queue_getNextSlot string
  | queue_preview string "int option"
  | queue_getAll
  | webhooks_list
  | webhooks_get string
  | webhooks_create jsval
  | webhooks_update string jsval
  | webhooks_delete string
  | webhooks_rotateSecret string
  | webhooks_test string "string option"
  | webhooks_getEvents string params
  | webhooks_getEventTypes
  | tenants_list params
  | tenants_get string
  | tenants_create jsval
  | tenants_update string jsval
  | tenants_delete string
  | tenants_getConnectUrl string string
  | tenants_listAccounts string
  | tenants_disconnectAccount string string
  | tenants_connectBluesky string jsval
  | tenants_connectMastodon string jsval

text \<open>The arguments each method gives to \<open>request\<close>: method, endpoint, body, query parameters.\<close>

fun call_args :: "api_call \<Rightarrow> string \<times> string \<times> jsval \<times> params" where
  "call_args (posts_list ps) = (''GET'', ''/posts'', Undefined, ps)"
| "call_args (posts_get postId) = (''GET'', ''/posts/'' @ postId, Undefined, None)"
| "call_args (posts_create data) = (''POST'', ''/posts'', data, None)"
| "call_args (posts_update postId data) = (''PATCH'', ''/posts/'' @ postId, data, None)"
| "call_args (posts_delete postId) = (''DELETE'', ''/posts/'' @ postId, Undefined, None)"
| "call_args (posts_publish postId) = (''POST'', ''/posts/'' @ postId @ ''/publish'', Undefined, None)"
| "call_args (accounts_list ps) = (''GET'', ''/accounts'', Undefined, ps)"
| "call_args (accounts_get accountId) = (''GET'', ''/accounts/'' @ accountId, Undefined, None)"
| "call_args (accounts_getPinterestBoards accountId) =
     (''GET'', ''/accounts/'' @ accountId @ ''/pinterest-boards'', Undefined, None)"
| "call_args analytics_overview = (''GET'', ''/analytics/overview'', Undefined, None)"
| "call_args (analytics_forAccount accountId ps) =
     (''GET'', ''/analytics/account/'' @ accountId, Undefined, ps)"
| "call_args (analytics_list ps) = (''GET'', ''/analytics'', Undefined, ps)"
| "call_args (media_getUploadUrl data) = (''POST'', ''/media/upload-url'', data, None)"
| "call_args usage = (''GET'', ''/usage'', Undefined, None)"
| "call_args (queue_getSlots accountId) =
     (''GET'', ''/queue/slots'', Undefined, Some [(''accountId'', Str accountId)])"
| "call_args (queue_setSlots data) = (''PUT'', ''/queue/slots'', data, None)"
| "call_args (queue_deleteSlots accountId) =
     (''DELETE'', ''/queue/slots'', Undefined, Some [(''accountId'', Str accountId)])"
| "call_args (queue_getNextSlot accountId) =
     (''GET'', ''/queue/next-slot'', Undefined, Some [(''accountId'', Str accountId)])"
| "call_args (queue_preview accountId count) =
     (''GET'', ''/queue/preview'', Undefined,
      Some [(''accountId'', Str accountId),
            (''count'', case count of None \<Rightarrow> Undefined | Some n \<Rightarrow> Num n)])"
| "call_args queue_getAll = (''GET'', ''/queue/all'', Undefined, None)"
| "call_args webhooks_list = (''GET'', ''/webhooks'', Undefined, None)"
| "call_args (webhooks_get webhookId) = (''GET'', ''/webhooks/'' @ webhookId, Undefined, None)"
| "call_args (webhooks_create data) = (''POST'', ''/webhooks'', data, None)"
| "call_args (webhooks_update webhookId data) = (''PATCH'', ''/webhooks/'' @ webhookId, data, None)"
| "call_args (webhooks_delete webhookId) = (''DELETE'', ''/webhooks/'' @ webhookId, Undefined, None)"
| "call_args (webhooks_rotateSecret webhookId) =
     (''POST'', ''/webhooks/'' @ webhookId @ ''/rotate-secret'', Undefined, None)"
| "call_args (webhooks_test webhookId eventType) =
     (''POST'', ''/webhooks/'' @ webhookId @ ''/test'',
      Obj [(''eventType'', case eventType of None \<Rightarrow> Undefined | Some t \<Rightarrow> Str t)], None)"
| "call_args (webhooks_getEvents webhookId ps) =
     (''GET'', ''/webhooks/'' @ webhookId @ ''/events'', Undefined, ps)"
| "call_args webhooks_getEventTypes = (''GET'', ''/webhooks/events/types'', Undefined, None)"
| "call_args (tenants_list ps) = (''GET'', ''/tenants'', Undefined, ps)"
| "call_args (tenants_get tenantId) = (''GET'', ''/tenants/'' @ tenantId, Undefined, None)"
| "call_args (tenants_create data) = (''POST'', ''/tenants'', data, None)"
| "call_args (tenants_update tenantId data) = (''PATCH'', ''/tenants/'' @ tenantId, data, None)"
| "call_args (tenants_delete tenantId) = (''DELETE'', ''/tenants/'' @ tenantId, Undefined, None)"
| "call_args (tenants_getConnectUrl tenantId platform) =
     (''GET'', ''/tenants/'' @ tenantId @ ''/connect/'' @ platform, Undefined, None)"
| "call_args (tenants_listAccounts tenantId) =
     (''GET'', ''/tenants/'' @ tenantId @ ''/accounts'', Undefined, None)"
| "call_args (tenants_disconnectAccount tenantId accountId) =
     (''DELETE'', ''/tenants/'' @ tenantId @ ''/accounts/'' @ accountId, Undefined, None)"
| "call_args (tenants_connectBluesky tenantId data) =
     (''POST'', ''/tenants/'' @ tenantId @ ''/connect/bluesky'', data, None)"
| "call_args (tenants_connectMastodon tenantId data) =
     (''POST'', ''/tenants/'' @ tenantId @ ''/connect/mastodon'', data, None)"

text \<open>A method call: \<open>return this.request(...)\<close> with those arguments.\<close>

definition call :: "platform \<Rightarrow> SchedulifyX \<Rightarrow> api_call \<Rightarrow> jsval promise \<times> effect list" where
  "call P this c =
     (case call_args c of (meth, endpoint, payload, queryParams) \<Rightarrow>
        request P this meth endpoint payload queryParams)"

section \<open>The media-upload helper\<close>

text \<open>The \<open>TypeError\<close> of destructuring \<open>null\<close> or \<open>undefined\<close> (V8's wording).\<close>

definition cannot_destructure :: "jsval \<Rightarrow> string \<Rightarrow> thrown" where
  "cannot_destructure v name =
     JsError ''TypeError''
       (''Cannot destructure property '' @ [CHR 39] @ name @ [CHR 39]
        @ '' of '' @ [CHR 39] @ ''(intermediate value)'' @ [CHR 39] @ '' as it is '' @ ToString v @ ''.'')"

text \<open>\<open>const { name } = v\<close>.\<close>

definition destructure :: "jsval \<Rightarrow> string \<Rightarrow> thrown + jsval" where
  "destructure v name =
     (if v = Null \<or> v = Undefined then Inl (cannot_destructure v name) else Inr (own_prop v name))"

text \<open>The options of the direct \<open>PUT\<close>: no authorization header, no signal.\<close>

definition put_init :: "blob \<Rightarrow> string \<Rightarrow> RequestInit" where
  "put_init file contentType =
     \<lparr>http_method = ''PUT'', headers = [(''Content-Type'', contentType)],
      body = Some (BlobBody file), signal = False\<rparr>"

text \<open>
  \<open>media.upload(file, filename, contentType)\<close>: awaits \<open>getUploadUrl\<close>, takes \<open>data\<close> out
  of its result, awaits the \<open>PUT\<close> to \<open>data.uploadUrl\<close>, whose response it drops, and
  returns \<open>data.mediaUrl\<close>.  Nothing is caught: a rejection of either step is the helper's.
\<close>

definition media_upload ::
  "platform \<Rightarrow> SchedulifyX \<Rightarrow> blob \<Rightarrow> string \<Rightarrow> string \<Rightarrow> jsval promise \<times> effect list" where
  "media_upload P this file filename contentType =
     (case call P this (media_getUploadUrl
             (Obj [(''filename'', Str filename), (''contentType'', Str contentType)])) of
        (Pending, effs) \<Rightarrow> (Pending, effs)
      | (Rejected e, effs) \<Rightarrow> (Rejected e, effs)
      | (Fulfilled result, effs) \<Rightarrow>
          (case destructure result ''data'' of
             Inl e \<Rightarrow> (Rejected e, effs)
           | Inr data \<Rightarrow>
               (case get_prop data ''uploadUrl'' of
                  Inl e \<Rightarrow> (Rejected e, effs)
                | Inr uploadUrl \<Rightarrow>
                    (let put = Fetch (UrlValue uploadUrl) (put_init file contentType)
                     in case fetch P (UrlValue uploadUrl) (put_init file contentType) of
                          Pending \<Rightarrow> (Pending, effs @ [put])
                        | Rejected e \<Rightarrow> (Rejected e, effs @ [put])
                        | Fulfilled response \<Rightarrow> (Fulfilled (own_prop data ''mediaUrl''), effs @ [put])))))"

text \<open>
  The values a query-parameter map may hold by its declared type
  \<open>string | number | boolean | undefined\<close>, a number being a safe integer: the values
  whose \<open>String(value)\<close> is \<open>ToString\<close>.
\<close>

fun query_value :: "jsval \<Rightarrow> bool" where
  "query_value Undefined = True"
| "query_value (Str s) = True"
| "query_value (Bool b) = True"
| "query_value (Num n) = safe_integer n"
| "query_value Null = False"
| "query_value (Arr xs) = False"
| "query_value (Obj ps) = False"

text \<open>The pairs of a given name in a list of search parameters, in order.\<close>

definition named :: "string \<Rightarrow> (string \<times> string) list \<Rightarrow> (string \<times> string) list" where
  "named k ps = filter (\<lambda>p. fst p = k) ps"

section \<open>Example platforms\<close>

text \<open>
  A reading of \<open>new URL\<close> for the examples below: the text up to the first \<open>?\<close> is the
  location, the rest is split at \<open>&\<close> and at the first \<open>=\<close> of each piece.  It agrees with
  the platform's parser on absolute URLs without \<open>#\<close>, \<open>+\<close> and percent escapes, which is
  what the examples use.
\<close>

fun split_on :: "char \<Rightarrow> string \<Rightarrow> string list" where
  "split_on c [] = [[]]"
| "split_on c (x # xs) =
     (if x = c then [] # split_on c xs
      else (case split_on c xs of [] \<Rightarrow> [[x]] | w # ws \<Rightarrow> (x # w) # ws))"

definition parse_query :: "string \<Rightarrow> (string \<times> string) list" where
  "parse_query q =
     map (\<lambda>piece. (takeWhile (\<lambda>c. c \<noteq> CHR ''='') piece,
                   drop 1 (dropWhile (\<lambda>c. c \<noteq> CHR ''='') piece)))
         (filter (\<lambda>piece. piece \<noteq> []) (split_on CHR ''&'' q))"

definition example_new_URL :: "string \<Rightarrow> URL option" where
  "example_new_URL text =
     Some \<lparr>location = takeWhile (\<lambda>c. c \<noteq> CHR ''?'') text,
           searchParams = parse_query (drop 1 (dropWhile (\<lambda>c. c \<noteq> CHR ''?'') text))\<rparr>"

text \<open>A network that never answers.\<close>

definition silent :: platform where
  "silent = \<lparr>new_URL = example_new_URL, fetch = (\<lambda>info init. Pending)\<rparr>"

text \<open>A network that answers every fetch with the given response.\<close>

definition answering :: "Response \<Rightarrow> platform" where
  "answering r = \<lparr>new_URL = example_new_URL, fetch = (\<lambda>info init. Fulfilled r)\<rparr>"

text \<open>
  A service that answers the API's requests with the given response, and a storage that
  answers the direct \<open>PUT\<close> with the second one.
\<close>

definition storage :: "Response \<Rightarrow> Response \<Rightarrow> platform" where
  "storage api put =
     \<lparr>new_URL = example_new_URL,
      fetch = (\<lambda>info init. if http_method init = ''PUT'' \<and> \<not> signal init then Fulfilled put
                             else Fulfilled api)\<rparr>"

definition client :: SchedulifyX where
  "client = new_SchedulifyX (KeyString ''sk_test'')"

section \<open>Construction of the client\<close>

lemma client_fields:
  "client = \<lparr>this_apiKey = ''sk_test'', this_baseUrl = ''https://api.schedulifyx.com'',
              this_timeout = 30000\<rparr>"
  by (simp add: client_def default_baseUrl_def default_timeout_def)

text \<open>
  C5, as stated, fails: a record that supplies the timeout \<open>0\<close> and the base URL \<open>""\<close>
  gets the defaults, not the values it supplies.
\<close>

theorem constructor_falsy_fields_counterexample:
  "new_SchedulifyX (ConfigRecord \<lparr>apiKey = ''sk_test'', baseUrl = Some [], timeout = Some 0\<rparr>)
     = \<lparr>this_apiKey = ''sk_test'', this_baseUrl = ''https://api.schedulifyx.com'',
        this_timeout = 30000\<rparr>"
  by (simp add: default_baseUrl_def default_timeout_def)

text \<open>
  C5, amended: a bare string sets the API key and leaves the base URL at
  \<open>https://api.schedulifyx.com\<close> and the timeout at 30000; a record sets the API key, and
  for the base URL and the timeout its value is used when it is supplied and truthy (a
  non-empty base URL, a timeout other than 0), the default otherwise.
\<close>

theorem constructor_defaults:
  "new_SchedulifyX (KeyString s)
     = \<lparr>this_apiKey = s, this_baseUrl = ''https://api.schedulifyx.com'', this_timeout = 30000\<rparr>
   \<and> this_apiKey (new_SchedulifyX (ConfigRecord c)) = apiKey c
   \<and> (\<forall>b. baseUrl c = Some b \<and> b \<noteq> [] \<longrightarrow> this_baseUrl (new_SchedulifyX (ConfigRecord c)) = b)
   \<and> (baseUrl c = None \<or> baseUrl c = Some [] \<longrightarrow>
        this_baseUrl (new_SchedulifyX (ConfigRecord c)) = ''https://api.schedulifyx.com'')
   \<and> (\<forall>t. timeout c = Some t \<and> t \<noteq> 0 \<longrightarrow> this_timeout (new_SchedulifyX (ConfigRecord c)) = t)
   \<and> (timeout c = None \<or> timeout c = Some 0 \<longrightarrow>
        this_timeout (new_SchedulifyX (ConfigRecord c)) = 30000)"
  by (auto simp add: default_baseUrl_def default_timeout_def)

theorem constructor_defaults_witness:
  "this_baseUrl (new_SchedulifyX (ConfigRecord
      \<lparr>apiKey = ''sk_test'', baseUrl = Some ''http://localhost:8080'', timeout = Some 5000\<rparr>))
     = ''http://localhost:8080''
   \<and> this_timeout (new_SchedulifyX (ConfigRecord
      \<lparr>apiKey = ''sk_test'', baseUrl = Some ''http://localhost:8080'', timeout = Some 5000\<rparr>))
     = 5000
   \<and> this_baseUrl (new_SchedulifyX (ConfigRecord
      \<lparr>apiKey = ''sk_test'', baseUrl = None, timeout = Some 0\<rparr>))
     = ''https://api.schedulifyx.com''
   \<and> this_timeout (new_SchedulifyX (ConfigRecord
      \<lparr>apiKey = ''sk_test'', baseUrl = None, timeout = Some 0\<rparr>))
     = 30000"
  using constructor_defaults
          [of "''sk_test''"
              "\<lparr>apiKey = ''sk_test'', baseUrl = Some ''http://localhost:8080'', timeout = Some 5000\<rparr>"]
        constructor_defaults
          [of "''sk_test''" "\<lparr>apiKey = ''sk_test'', baseUrl = None, timeout = Some 0\<rparr>"]
  by simp

section \<open>Shared facts about the dispatcher\<close>

text \<open>An ok response: the call ends in the state of \<open>response.json()\<close>, whatever it is.\<close>

lemma request_ok_response:
  assumes "request_url P this endpoint queryParams = Some url"
      and "fetch P (URL_toString url) (request_init this meth payload) = Fulfilled r"
      and "response_ok r"
  shows "request P this meth endpoint payload queryParams =
           (response_json r,
            [SetTimeout (this_timeout this),
             Fetch (URL_toString url) (request_init this meth payload), ClearTimeout, ReadJson])"
  using assms by (simp add: request_def)

text \<open>A response that is not ok and whose body is read: the error of \<open>http_failure\<close>.\<close>

lemma request_failed_response:
  assumes "request_url P this endpoint queryParams = Some url"
      and "fetch P (URL_toString url) (request_init this meth payload) = Fulfilled r"
      and "\<not> response_ok r"
      and "response_json r = Fulfilled errorData"
  shows "fst (request P this meth endpoint payload queryParams) =
           Rejected (request_catch (http_failure errorData (response_status r)))"
  using assms by (simp add: request_def)

text \<open>Every call that gets past \<open>new URL\<close> issues exactly one fetch.\<close>

lemma request_issues_one_fetch:
  assumes "request_url P this endpoint queryParams = Some url"
  shows "issued (snd (request P this meth endpoint payload queryParams)) =
           [(URL_toString url, request_init this meth payload)]"
  using assms by (simp add: request_def Let_def split: promise.splits)

section \<open>Timeout\<close>

text \<open>
  C1: a call whose fetch has not settled when the timer fires fails with a
  \<open>SchedulifyXError\<close> of code \<open>timeout\<close> and status 408.  The fetch carries the signal of
  the controller that the timer aborts, and after the abort the call does nothing but
  clear the timer: no fetch and no body read follow.
\<close>

theorem request_timeout:
  assumes "request_url P this endpoint queryParams = Some url"
      and "fetch P (URL_toString url) (request_init this meth payload) = Pending"
  shows "request P this meth endpoint payload queryParams =
           (Rejected (SdkError \<lparr>message = ''Request timeout'', code = Str ''timeout'',
                                status = 408, details = Undefined\<rparr>),
            [SetTimeout (this_timeout this),
             Fetch (URL_toString url) (request_init this meth payload), Abort, ClearTimeout])
         \<and> signal (request_init this meth payload)"
  using assms
  by (simp add: request_def AbortError_def new_SchedulifyXError_def request_init_def)

theorem request_timeout_witness:
  "request_url silent client ''/usage'' None
     = Some \<lparr>location = ''https://api.schedulifyx.com/usage'', searchParams = []\<rparr>
   \<and> request silent client ''GET'' ''/usage'' Undefined None =
        (Rejected (SdkError \<lparr>message = ''Request timeout'', code = Str ''timeout'',
                             status = 408, details = Undefined\<rparr>),
         [SetTimeout 30000,
          Fetch (URL_toString \<lparr>location = ''https://api.schedulifyx.com/usage'', searchParams = []\<rparr>)
                (request_init client ''GET'' Undefined),
          Abort, ClearTimeout])"
proof -
  have u: "request_url silent client ''/usage'' None
             = Some \<lparr>location = ''https://api.schedulifyx.com/usage'', searchParams = []\<rparr>"
    by (simp add: request_url_def silent_def example_new_URL_def parse_query_def client_fields)
  have f: "fetch silent
             (URL_toString \<lparr>location = ''https://api.schedulifyx.com/usage'', searchParams = []\<rparr>)
             (request_init client ''GET'' Undefined) = Pending"
    by (simp add: silent_def)
  show ?thesis
    using u request_timeout [OF u f] by (simp add: client_fields)
qed

section \<open>Responses that are not ok\<close>

text \<open>
  C3: a response that is not ok and whose body cannot be parsed as JSON gives the error
  with code \<open>http_error\<close>, message \<open>HTTP\<close> followed by the status in decimal, and the
  response's status.
\<close>

theorem unparseable_error_body:
  assumes "request_url P this endpoint queryParams = Some url"
      and "fetch P (URL_toString url) (request_init this meth payload) = Fulfilled r"
      and "\<not> response_ok r"
      and "response_json r = Rejected e"
  shows "fst (request P this meth endpoint payload queryParams) =
           Rejected (SdkError \<lparr>message = ''HTTP '' @ digits (response_status r),
                                code = Str ''http_error'',
                                status = response_status r, details = Undefined\<rparr>)"
  using assms
  by (simp add: request_def http_failure_def get_prop_def opt_chain_def or_else_def
      new_SchedulifyXError_def)

theorem unparseable_error_body_witness:
  "\<not> response_ok \<lparr>response_status = 502,
                     response_json = Rejected (JsError ''SyntaxError'' ''Unexpected token <'')\<rparr>
   \<and> fst (request
          (answering \<lparr>response_status = 502,
                      response_json = Rejected (JsError ''SyntaxError'' ''Unexpected token <'')\<rparr>)
          client ''GET'' ''/usage'' Undefined None) =
        Rejected (SdkError \<lparr>message = ''HTTP 502'', code = Str ''http_error'',
                             status = 502, details = Undefined\<rparr>)"
proof -
  let ?r = "\<lparr>response_status = 502,
             response_json = Rejected (JsError ''SyntaxError'' ''Unexpected token <'')\<rparr>"
  let ?u = "\<lparr>location = ''https://api.schedulifyx.com/usage'', searchParams = []\<rparr>"
  have u: "request_url (answering ?r) client ''/usage'' None = Some ?u"
    by (simp add: request_url_def answering_def example_new_URL_def parse_query_def client_fields)
  have f: "fetch (answering ?r) (URL_toString ?u) (request_init client ''GET'' Undefined)
             = Fulfilled ?r"
    by (simp add: answering_def)
  have n: "\<not> response_ok ?r"
    by (simp add: response_ok_def)
  have j: "response_json ?r = Rejected (JsError ''SyntaxError'' ''Unexpected token <'')"
    by simp
  have d: "digits 502 = ''502''"
    by (simp add: digits.simps digit_def)
  show ?thesis
    using n unparseable_error_body [OF u f n j] by (simp add: d)
qed

text \<open>
  C2, as stated, fails: a structured error body whose \<open>code\<close> and \<open>message\<close> are the empty
  string gives the error with code \<open>http_error\<close> and message \<open>HTTP 400\<close>.
\<close>

theorem empty_error_fields_counterexample:
  "fst (call
         (answering \<lparr>response_status = 400,
                     response_json = Fulfilled
                       (Obj [(''error'', Obj [(''code'', Str []), (''message'', Str []),
                                              (''details'', Obj [(''field'', Str ''content'')])])])\<rparr>)
         client (posts_create (Obj [(''content'', Str [])]))) =
     Rejected (SdkError \<lparr>message = ''HTTP 400'', code = Str ''http_error'', status = 400,
                          details = Obj [(''field'', Str ''content'')]\<rparr>)"
  by (simp add: call_def request_def request_url_def answering_def example_new_URL_def
      parse_query_def client_fields response_ok_def http_failure_def get_prop_def opt_chain_def
      or_else_def new_SchedulifyXError_def digits.simps digit_def)

text \<open>
  C2, amended: for a response that is not ok and whose body parses as an object with an
  \<open>error\<close> object carrying the strings \<open>code\<close> and \<open>message\<close>, the raised error has the
  body's \<open>details\<close> (\<open>undefined\<close> when the body has none), the body's \<open>code\<close> when it is
  not empty and \<open>http_error\<close> otherwise, the body's \<open>message\<close> when it is not empty and
  \<open>HTTP\<close> with the status otherwise, and the response's status.
\<close>

theorem structured_error_body:
  assumes "request_url P this endpoint queryParams = Some url"
      and "fetch P (URL_toString url) (request_init this meth payload) = Fulfilled r"
      and "\<not> response_ok r"
      and "response_json r = Fulfilled (Obj reply)"
      and "map_of reply ''error'' = Some (Obj err)"
      and "map_of err ''code'' = Some (Str c)"
      and "map_of err ''message'' = Some (Str m)"
  shows "fst (request P this meth endpoint payload queryParams) =
           Rejected (SdkError
             \<lparr>message = (if m = [] then ''HTTP '' @ digits (response_status r) else m),
              code = Str (if c = [] then ''http_error'' else c),
              status = response_status r,
              details = (case map_of err ''details'' of None \<Rightarrow> Undefined | Some d \<Rightarrow> d)\<rparr>)"
  using assms
  by (simp add: request_def http_failure_def get_prop_def opt_chain_def or_else_def
      new_SchedulifyXError_def)

theorem structured_error_body_witness:
  "fst (request
         (answering \<lparr>response_status = 422,
                     response_json = Fulfilled
                       (Obj [(''error'', Obj [(''code'', Str ''validation_error''),
                                              (''message'', Str ''content is required''),
                                              (''details'', Obj [(''field'', Str ''content'')])])])\<rparr>)
         client ''POST'' ''/posts'' (Obj []) None) =
     Rejected (SdkError \<lparr>message = ''content is required'', code = Str ''validation_error'',
                          status = 422, details = Obj [(''field'', Str ''content'')]\<rparr>)"
proof -
  let ?err = "[(''code'', Str ''validation_error''), (''message'', Str ''content is required''),
               (''details'', Obj [(''field'', Str ''content'')])]"
  let ?top = "[(''error'', Obj ?err)]"
  let ?r = "\<lparr>response_status = 422, response_json = Fulfilled (Obj ?top)\<rparr>"
  let ?u = "\<lparr>location = ''https://api.schedulifyx.com/posts'', searchParams = []\<rparr>"
  have u: "request_url (answering ?r) client ''/posts'' None = Some ?u"
    by (simp add: request_url_def answering_def example_new_URL_def parse_query_def client_fields)
  have f: "fetch (answering ?r) (URL_toString ?u) (request_init client ''POST'' (Obj []))
             = Fulfilled ?r"
    by (simp add: answering_def)
  have n: "\<not> response_ok ?r"
    by (simp add: response_ok_def)
  have j: "response_json ?r = Fulfilled (Obj ?top)"
    by simp
  have e: "map_of ?top ''error'' = Some (Obj ?err)"
    by simp
  have c: "map_of ?err ''code'' = Some (Str ''validation_error'')"
    by simp
  have m: "map_of ?err ''message'' = Some (Str ''content is required'')"
    by simp
  show ?thesis
    using structured_error_body [OF u f n j e c m] by simp
qed

section \<open>Ok responses\<close>

text \<open>
  C6: for every method that is a single request, when the response is ok and its body
  parses, the call is fulfilled with the parsed value itself, whatever that value is.
\<close>

theorem success_body_passed_through:
  assumes "call_args c = (meth, endpoint, payload, queryParams)"
      and "request_url P this endpoint queryParams = Some url"
      and "fetch P (URL_toString url) (request_init this meth payload) = Fulfilled r"
      and "response_ok r"
      and "response_json r = Fulfilled j"
  shows "fst (call P this c) = Fulfilled j"
  using assms by (simp add: call_def request_ok_response)

theorem success_body_passed_through_witness:
  "response_ok \<lparr>response_status = 201,
                 response_json = Fulfilled
                   (Obj [(''data'', Obj [(''id'', Str ''post_1''), (''content'', Str ''hi'')])])\<rparr>
   \<and> fst (call
          (answering \<lparr>response_status = 201,
                      response_json = Fulfilled
                        (Obj [(''data'', Obj [(''id'', Str ''post_1''), (''content'', Str ''hi'')])])\<rparr>)
          client
          (posts_create (Obj [(''content'', Str ''hi''), (''accountIds'', Arr [Str ''acc_1'']),
                              (''publishNow'', Bool True)]))) =
        Fulfilled (Obj [(''data'', Obj [(''id'', Str ''post_1''), (''content'', Str ''hi'')])])"
proof -
  let ?j = "Obj [(''data'', Obj [(''id'', Str ''post_1''), (''content'', Str ''hi'')])]"
  let ?r = "\<lparr>response_status = 201, response_json = Fulfilled ?j\<rparr>"
  let ?data = "Obj [(''content'', Str ''hi''), (''accountIds'', Arr [Str ''acc_1'']),
                    (''publishNow'', Bool True)]"
  let ?u = "\<lparr>location = ''https://api.schedulifyx.com/posts'', searchParams = []\<rparr>"
  have a: "call_args (posts_create ?data) = (''POST'', ''/posts'', ?data, None)"
    by simp
  have u: "request_url (answering ?r) client ''/posts'' None = Some ?u"
    by (simp add: request_url_def answering_def example_new_URL_def parse_query_def client_fields)
  have f: "fetch (answering ?r) (URL_toString ?u) (request_init client ''POST'' ?data)
             = Fulfilled ?r"
    by (simp add: answering_def)
  have k: "response_ok ?r"
    by (simp add: response_ok_def)
  have j: "response_json ?r = Fulfilled ?j"
    by simp
  show ?thesis
    using k success_body_passed_through [OF a u f k j] by simp
qed

text \<open>
  C9 at a concrete call: \<open>posts.delete\<close> answered with status 204 and an empty body.
  \<open>response.json()\<close> rejects with a \<open>SyntaxError\<close>; its promise was returned without
  \<open>await\<close>, so the call rejects with that \<open>SyntaxError\<close> itself and not with a
  \<open>SchedulifyXError\<close> of code \<open>network_error\<close>.
\<close>

theorem unparseable_success_body_escapes_catch:
  "fst (call
         (answering \<lparr>response_status = 204,
                     response_json = Rejected (JsError ''SyntaxError'' ''Unexpected end of JSON input'')\<rparr>)
         client (posts_delete ''post_1'')) =
     Rejected (JsError ''SyntaxError'' ''Unexpected end of JSON input'')"
  by (simp add: call_def request_def request_url_def answering_def example_new_URL_def
      parse_query_def client_fields response_ok_def)

section \<open>The request body\<close>

text \<open>
  C10: the one fetch of a call carries the options of \<open>request_init\<close>, whose body is the
  JSON text of the body argument when that argument is truthy and absent otherwise; for
  the arguments \<open>0\<close>, \<open>""\<close> and \<open>false\<close> it is absent.
\<close>

theorem falsy_body_not_sent:
  assumes "request_url P this endpoint queryParams = Some url"
  shows "issued (snd (request P this meth endpoint payload queryParams)) =
           [(URL_toString url, request_init this meth payload)]
         \<and> body (request_init this meth payload) =
             (if truthy payload then Some (JSON_stringify payload) else None)
         \<and> (payload = Num 0 \<or> payload = Str [] \<or> payload = Bool False \<longrightarrow>
              body (request_init this meth payload) = None)"
proof -
  have "body (request_init this meth payload) =
          (if truthy payload then Some (JSON_stringify payload) else None)"
    by (simp add: request_init_def)
  moreover have "payload = Num 0 \<or> payload = Str [] \<or> payload = Bool False \<longrightarrow>
                   body (request_init this meth payload) = None"
    by (auto simp add: request_init_def)
  ultimately show ?thesis
    using request_issues_one_fetch [OF assms] by simp
qed

theorem falsy_body_not_sent_witness:
  "issued (snd (request silent client ''POST'' ''/posts'' (Num 0) None)) =
     [(URL_toString \<lparr>location = ''https://api.schedulifyx.com/posts'', searchParams = []\<rparr>,
       \<lparr>http_method = ''POST'',
        headers = [(''Authorization'', ''Bearer sk_test''), (''Content-Type'', ''application/json'')],
        body = None, signal = True\<rparr>)]"
proof -
  let ?u = "\<lparr>location = ''https://api.schedulifyx.com/posts'', searchParams = []\<rparr>"
  have u: "request_url silent client ''/posts'' None = Some ?u"
    by (simp add: request_url_def silent_def example_new_URL_def parse_query_def client_fields)
  show ?thesis
    using falsy_body_not_sent [OF u, of "''POST''" "Num 0"]
    by (simp add: request_init_def client_fields)
qed

section \<open>Query parameters\<close>

lemma named_set_same: "named k (URLSearchParams_set k v ps) = [(k, v)]"
proof (induction ps)
  case Nil
  show ?case by (simp add: named_def)
next
  case (Cons p ps)
  have "filter (\<lambda>q. fst q = k) (filter (\<lambda>q. fst q \<noteq> k) ps) = []"
    by (induction ps) auto
  with Cons show ?case by (simp add: named_def)
qed

lemma named_set_other:
  assumes "k' \<noteq> k"
  shows "named k' (URLSearchParams_set k v ps) = named k' ps"
proof (induction ps)
  case Nil
  from assms show ?case by (simp add: named_def)
next
  case (Cons p ps)
  have "filter (\<lambda>q. fst q = k') (filter (\<lambda>q. fst q \<noteq> k) ps) = filter (\<lambda>q. fst q = k') ps"
    using assms by (induction ps) auto
  with Cons assms show ?case by (auto simp add: named_def)
qed

text \<open>A name that no defined entry carries keeps the pairs it had.\<close>

lemma forEach_entry_untouched:
  assumes "\<forall>e \<in> set entries. fst e = k \<longrightarrow> snd e = Undefined"
  shows "named k (searchParams (forEach_entry url entries)) = named k (searchParams url)"
  using assms
proof (induction entries arbitrary: url)
  case Nil
  show ?case by simp
next
  case (Cons e entries)
  then show ?case by (auto simp add: named_set_other)
qed

text \<open>A name with a defined value ends with one pair, of that value as a string.\<close>

lemma forEach_entry_defined:
  assumes "distinct (map fst entries)" and "(k, v) \<in> set entries" and "v \<noteq> Undefined"
  shows "named k (searchParams (forEach_entry url entries)) = [(k, ToString v)]"
  using assms
proof (induction entries arbitrary: url)
  case Nil
  then show ?case by simp
next
  case (Cons e entries)
  show ?case
  proof (cases "e = (k, v)")
    case True
    from Cons.prems True have "\<forall>e' \<in> set entries. fst e' = k \<longrightarrow> snd e' = Undefined"
      by force
    from forEach_entry_untouched [OF this] True Cons.prems(3)
    show ?thesis by (simp add: named_set_same)
  next
    case False
    with Cons.prems have "(k, v) \<in> set entries" and "distinct (map fst entries)"
      by auto
    from Cons.IH [OF this(2) this(1) Cons.prems(3)] show ?thesis by simp
  qed
qed

lemma forEach_entry_location: "location (forEach_entry url entries) = location url"
  by (induction entries arbitrary: url) auto

text \<open>
  C4, as stated, fails: \<open>analytics.forAccount\<close> with an account identifier that carries a
  query string and with \<open>days\<close> undefined fetches a URL in which \<open>days\<close> appears.
\<close>

theorem undefined_key_in_url_counterexample:
  "issued (snd (call silent client
                  (analytics_forAccount ''acc_1?days=7'' (Some [(''days'', Undefined)])))) =
     [(URL_toString \<lparr>location = ''https://api.schedulifyx.com/analytics/account/acc_1'',
                     searchParams = [(''days'', ''7'')]\<rparr>,
       request_init client ''GET'' Undefined)]"
  by (simp add: call_def request_def request_url_def silent_def example_new_URL_def
      parse_query_def client_fields)

text \<open>
  C4, amended: the dispatcher adds no pair for a key whose value is undefined, so that
  such a key has in the fetched URL exactly the pairs that the text of base URL and
  endpoint already gave it (none when that text has no query of its own); a key with a
  defined value has exactly one pair, whose value is \<open>String(value)\<close>; and a name that is
  not a key of the map keeps its pairs.  The keys of the map are distinct, as the
  properties of an object are, and its values are of the declared type
  \<open>string | number | boolean | undefined\<close>, the numbers being safe integers, for which
  \<open>ToString\<close> is \<open>String(value)\<close>.
\<close>

theorem query_parameters_in_url:
  assumes "new_URL P (this_baseUrl this @ endpoint) = Some url0"
      and "distinct (map fst entries)"
      and "\<forall>e \<in> set entries. query_value (snd e)"
  shows "\<exists>url. issued (snd (request P this meth endpoint payload (Some entries))) =
                 [(URL_toString url, request_init this meth payload)]
             \<and> location url = location url0
             \<and> (\<forall>(k, v) \<in> set entries.
                  named k (searchParams url) =
                    (if v = Undefined then named k (searchParams url0) else [(k, ToString v)]))
             \<and> (\<forall>k. k \<notin> fst ` set entries \<longrightarrow>
                  named k (searchParams url) = named k (searchParams url0))"
proof -
  let ?url = "forEach_entry url0 entries"
  have u: "request_url P this endpoint (Some entries) = Some ?url"
    using assms(1) by (simp add: request_url_def)
  have keys: "named k (searchParams ?url) =
                (if v = Undefined then named k (searchParams url0) else [(k, ToString v)])"
    if kv: "(k, v) \<in> set entries" for k v
  proof (cases "v = Undefined")
    case True
    have "\<forall>e \<in> set entries. fst e = k \<longrightarrow> snd e = Undefined"
    proof (intro ballI impI)
      fix e assume e: "e \<in> set entries" "fst e = k"
      from assms(2) kv e have "e = (k, v)"
        by (metis eq_key_imp_eq_value prod.collapse)
      with True show "snd e = Undefined" by simp
    qed
    from forEach_entry_untouched [OF this] True show ?thesis by simp
  next
    case False
    from forEach_entry_defined [OF assms(2) kv False] False show ?thesis by simp
  qed
  have others: "named k (searchParams ?url) = named k (searchParams url0)"
    if "k \<notin> fst ` set entries" for k
  proof -
    from that have "\<forall>e \<in> set entries. fst e = k \<longrightarrow> snd e = Undefined"
      by auto
    from forEach_entry_untouched [OF this] show ?thesis .
  qed
  from request_issues_one_fetch [OF u] keys others forEach_entry_location
  show ?thesis by (intro exI [of _ ?url]) auto
qed

theorem query_parameters_in_url_witness:
  "issued (snd (request silent client ''GET'' ''/queue/preview'' Undefined
                  (Some [(''accountId'', Str ''acc_1''), (''count'', Undefined),
                         (''limit'', Num 20), (''active'', Bool True)]))) =
     [(URL_toString \<lparr>location = ''https://api.schedulifyx.com/queue/preview'',
                     searchParams = [(''accountId'', ''acc_1''), (''limit'', ''20''),
                                     (''active'', ''true'')]\<rparr>,
       request_init client ''GET'' Undefined)]
   \<and> named ''count'' [(''accountId'', ''acc_1''), (''limit'', ''20''), (''active'', ''true'')] = []
   \<and> named ''limit'' [(''accountId'', ''acc_1''), (''limit'', ''20''), (''active'', ''true'')]
        = [(''limit'', ''20'')]
   \<and> query_value (Num 20)"
proof -
  let ?entries = "[(''accountId'', Str ''acc_1''), (''count'', Undefined),
                   (''limit'', Num 20), (''active'', Bool True)]"
  let ?u0 = "\<lparr>location = ''https://api.schedulifyx.com/queue/preview'', searchParams = []\<rparr>"
  have p: "new_URL silent (this_baseUrl client @ ''/queue/preview'') = Some ?u0"
    by (simp add: silent_def example_new_URL_def parse_query_def client_fields)
  have d: "distinct (map fst ?entries)"
    by simp
  have q: "\<forall>e \<in> set ?entries. query_value (snd e)"
    by (simp add: safe_integer_def)
  have n: "Number_toString 20 = ''20''"
    by (simp add: Number_toString_def digits.simps digit_def)
  from query_parameters_in_url [OF p d q, of "''GET''" Undefined]
  obtain url where
    i: "issued (snd (request silent client ''GET'' ''/queue/preview'' Undefined (Some ?entries)))
          = [(URL_toString url, request_init client ''GET'' Undefined)]"
    by blast
  have "issued (snd (request silent client ''GET'' ''/queue/preview'' Undefined (Some ?entries))) =
          [(URL_toString \<lparr>location = ''https://api.schedulifyx.com/queue/preview'',
                          searchParams = [(''accountId'', ''acc_1''), (''limit'', ''20''),
                                          (''active'', ''true'')]\<rparr>,
            request_init client ''GET'' Undefined)]"
    by (simp add: request_def request_url_def silent_def example_new_URL_def parse_query_def
        client_fields n)
  with i show ?thesis by (simp add: named_def safe_integer_def)
qed

section \<open>The media-upload helper\<close>

text \<open>The helper after a fulfilled first step whose result carries a \<open>data\<close> object.\<close>

lemma media_upload_after_first_step:
  assumes "call P this (media_getUploadUrl
             (Obj [(''filename'', Str filename), (''contentType'', Str contentType)]))
             = (Fulfilled j, effs)"
      and "j \<noteq> Null" and "j \<noteq> Undefined"
      and "own_prop j ''data'' = d"
      and "d \<noteq> Null" and "d \<noteq> Undefined"
  shows "media_upload P this file filename contentType =
           (case fetch P (UrlValue (own_prop d ''uploadUrl'')) (put_init file contentType) of
              Fulfilled response \<Rightarrow> Fulfilled (own_prop d ''mediaUrl'')
            | Rejected e \<Rightarrow> Rejected e
            | Pending \<Rightarrow> Pending,
            effs @ [Fetch (UrlValue (own_prop d ''uploadUrl'')) (put_init file contentType)])"
  using assms
  by (simp add: media_upload_def destructure_def get_prop_def Let_def split: promise.splits)

lemma media_upload_first_step_rejected:
  assumes "call P this (media_getUploadUrl
             (Obj [(''filename'', Str filename), (''contentType'', Str contentType)]))
             = (Rejected e, effs)"
  shows "media_upload P this file filename contentType = (Rejected e, effs)"
  using assms by (simp add: media_upload_def)

text \<open>
  C7: the helper first calls \<open>getUploadUrl\<close> with the file name and content type.  When
  that call is rejected, the helper is rejected with the same error and fetches nothing
  more.  When it is fulfilled with a result whose \<open>data\<close> is an object, the helper issues
  one more fetch, a \<open>PUT\<close> of the caller's file to \<open>data.uploadUrl\<close>; it is fulfilled with
  \<open>data.mediaUrl\<close> when that fetch is fulfilled and rejected with the fetch's error when
  that fetch is rejected.
\<close>

theorem media_upload_two_steps:
  assumes "call P this (media_getUploadUrl
             (Obj [(''filename'', Str filename), (''contentType'', Str contentType)]))
             = (first, effs)"
  shows "(\<forall>e. first = Rejected e \<longrightarrow>
            media_upload P this file filename contentType = (Rejected e, effs))
       \<and> (\<forall>j d. first = Fulfilled j \<and> j \<noteq> Null \<and> j \<noteq> Undefined \<and> own_prop j ''data'' = d
                  \<and> d \<noteq> Null \<and> d \<noteq> Undefined \<longrightarrow>
            snd (media_upload P this file filename contentType) =
              effs @ [Fetch (UrlValue (own_prop d ''uploadUrl'')) (put_init file contentType)]
            \<and> (\<forall>response.
                  fetch P (UrlValue (own_prop d ''uploadUrl'')) (put_init file contentType)
                    = Fulfilled response \<longrightarrow>
                  fst (media_upload P this file filename contentType)
                    = Fulfilled (own_prop d ''mediaUrl''))
            \<and> (\<forall>e.
                  fetch P (UrlValue (own_prop d ''uploadUrl'')) (put_init file contentType)
                    = Rejected e \<longrightarrow>
                  fst (media_upload P this file filename contentType) = Rejected e))
       \<and> http_method (put_init file contentType) = ''PUT''
       \<and> body (put_init file contentType) = Some (BlobBody file)"
proof (intro conjI allI impI)
  fix e assume "first = Rejected e"
  with assms show "media_upload P this file filename contentType = (Rejected e, effs)"
    by (simp add: media_upload_first_step_rejected)
next
  fix j d
  assume h: "first = Fulfilled j \<and> j \<noteq> Null \<and> j \<noteq> Undefined \<and> own_prop j ''data'' = d
               \<and> d \<noteq> Null \<and> d \<noteq> Undefined"
  with assms have s: "call P this (media_getUploadUrl
             (Obj [(''filename'', Str filename), (''contentType'', Str contentType)]))
             = (Fulfilled j, effs)"
    by simp
  from h have a: "j \<noteq> Null" "j \<noteq> Undefined" "own_prop j ''data'' = d"
    "d \<noteq> Null" "d \<noteq> Undefined"
    by auto
  note up = media_upload_after_first_step [OF s a, of "file"]
  from h up show "snd (media_upload P this file filename contentType) =
      effs @ [Fetch (UrlValue (own_prop d ''uploadUrl'')) (put_init file contentType)]"
    by simp
  { fix response
    assume "fetch P (UrlValue (own_prop d ''uploadUrl'')) (put_init file contentType)
              = Fulfilled response"
    with h up show "fst (media_upload P this file filename contentType)
                      = Fulfilled (own_prop d ''mediaUrl'')"
      by simp }
  { fix e
    assume "fetch P (UrlValue (own_prop d ''uploadUrl'')) (put_init file contentType)
              = Rejected e"
    with h up show "fst (media_upload P this file filename contentType) = Rejected e"
      by simp }
next
  show "http_method (put_init file contentType) = ''PUT''"
    by (simp add: put_init_def)
next
  show "body (put_init file contentType) = Some (BlobBody file)"
    by (simp add: put_init_def)
qed

theorem media_upload_two_steps_witness:
  "media_upload
     (storage
        \<lparr>response_status = 200,
         response_json = Fulfilled
           (Obj [(''data'', Obj [(''uploadUrl'', Str ''https://bucket.example/put/m.jpg''),
                                 (''mediaUrl'', Str ''https://cdn.example/m.jpg''),
                                 (''expiresIn'', Num 3600)])])\<rparr>
        \<lparr>response_status = 200, response_json = Fulfilled Null\<rparr>)
     client ''bytes'' ''m.jpg'' ''image/jpeg'' =
     (Fulfilled (Str ''https://cdn.example/m.jpg''),
      [SetTimeout 30000,
       Fetch (URL_toString \<lparr>location = ''https://api.schedulifyx.com/media/upload-url'',
                            searchParams = []\<rparr>)
             (request_init client ''POST''
                (Obj [(''filename'', Str ''m.jpg''), (''contentType'', Str ''image/jpeg'')])),
       ClearTimeout, ReadJson,
       Fetch (UrlValue (Str ''https://bucket.example/put/m.jpg''))
             \<lparr>http_method = ''PUT'', headers = [(''Content-Type'', ''image/jpeg'')],
              body = Some (BlobBody ''bytes''), signal = False\<rparr>])
   \<and> media_upload silent client ''bytes'' ''m.jpg'' ''image/jpeg'' =
       (Rejected (SdkError \<lparr>message = ''Request timeout'', code = Str ''timeout'',
                            status = 408, details = Undefined\<rparr>),
        [SetTimeout 30000,
         Fetch (URL_toString \<lparr>location = ''https://api.schedulifyx.com/media/upload-url'',
                              searchParams = []\<rparr>)
               (request_init client ''POST''
                  (Obj [(''filename'', Str ''m.jpg''), (''contentType'', Str ''image/jpeg'')])),
         Abort, ClearTimeout])"
proof -
  let ?d = "Obj [(''uploadUrl'', Str ''https://bucket.example/put/m.jpg''),
                 (''mediaUrl'', Str ''https://cdn.example/m.jpg''), (''expiresIn'', Num 3600)]"
  let ?j = "Obj [(''data'', ?d)]"
  let ?P = "storage \<lparr>response_status = 200, response_json = Fulfilled ?j\<rparr>
                    \<lparr>response_status = 200, response_json = Fulfilled Null\<rparr>"
  let ?data = "Obj [(''filename'', Str ''m.jpg''), (''contentType'', Str ''image/jpeg'')]"
  let ?u = "\<lparr>location = ''https://api.schedulifyx.com/media/upload-url'', searchParams = []\<rparr>"
  let ?effs = "[SetTimeout 30000, Fetch (URL_toString ?u) (request_init client ''POST'' ?data),
                ClearTimeout, ReadJson]"
  let ?timeout = "SdkError \<lparr>message = ''Request timeout'', code = Str ''timeout'',
                             status = 408, details = Undefined\<rparr>"
  let ?aborted = "[SetTimeout 30000, Fetch (URL_toString ?u) (request_init client ''POST'' ?data),
                   Abort, ClearTimeout]"
  have s: "call ?P client (media_getUploadUrl ?data) = (Fulfilled ?j, ?effs)"
    by (simp add: call_def request_def request_url_def storage_def example_new_URL_def
        parse_query_def client_fields response_ok_def request_init_def)
  have t: "call silent client (media_getUploadUrl ?data) = (Rejected ?timeout, ?aborted)"
    by (simp add: call_def request_def request_url_def silent_def example_new_URL_def
        parse_query_def client_fields AbortError_def new_SchedulifyXError_def)
  have p: "fetch ?P (UrlValue (own_prop ?d ''uploadUrl'')) (put_init ''bytes'' ''image/jpeg'')
             = Fulfilled \<lparr>response_status = 200, response_json = Fulfilled Null\<rparr>"
    by (simp add: storage_def put_init_def)
  from media_upload_two_steps [OF s, of "''bytes''"] p
  have ok: "snd (media_upload ?P client ''bytes'' ''m.jpg'' ''image/jpeg'') =
              ?effs @ [Fetch (UrlValue (own_prop ?d ''uploadUrl'')) (put_init ''bytes'' ''image/jpeg'')]
            \<and> fst (media_upload ?P client ''bytes'' ''m.jpg'' ''image/jpeg'')
                = Fulfilled (own_prop ?d ''mediaUrl'')"
    by simp
  from media_upload_two_steps [OF t, of "''bytes''"]
  have failed: "media_upload silent client ''bytes'' ''m.jpg'' ''image/jpeg''
                  = (Rejected ?timeout, ?aborted)"
    by simp
  from ok have "media_upload ?P client ''bytes'' ''m.jpg'' ''image/jpeg'' =
      (Fulfilled (Str ''https://cdn.example/m.jpg''),
       ?effs @ [Fetch (UrlValue (Str ''https://bucket.example/put/m.jpg''))
                  \<lparr>http_method = ''PUT'', headers = [(''Content-Type'', ''image/jpeg'')],
                   body = Some (BlobBody ''bytes''), signal = False\<rparr>])"
    by (simp add: prod_eq_iff put_init_def)
  with failed show ?thesis by simp
qed

text \<open>
  C8: when \<open>getUploadUrl\<close> succeeds and the \<open>PUT\<close> is answered, with whatever response,
  the helper is fulfilled with \<open>data.mediaUrl\<close>: the response of the \<open>PUT\<close> is not looked
  at.
\<close>

theorem upload_ignores_put_status:
  assumes "request_url P this ''/media/upload-url'' None = Some url"
      and "fetch P (URL_toString url)
             (request_init this ''POST''
                (Obj [(''filename'', Str filename), (''contentType'', Str contentType)]))
             = Fulfilled r"
      and "response_ok r"
      and "response_json r = Fulfilled j"
      and "j \<noteq> Null" and "j \<noteq> Undefined"
      and "own_prop j ''data'' = d"
      and "d \<noteq> Null" and "d \<noteq> Undefined"
      and "fetch P (UrlValue (own_prop d ''uploadUrl'')) (put_init file contentType)
             = Fulfilled response"
  shows "fst (media_upload P this file filename contentType) = Fulfilled (own_prop d ''mediaUrl'')"
proof -
  let ?data = "Obj [(''filename'', Str filename), (''contentType'', Str contentType)]"
  from request_ok_response [OF assms(1) assms(2) assms(3)] assms(4)
  have "call P this (media_getUploadUrl ?data) =
          (Fulfilled j,
           [SetTimeout (this_timeout this),
            Fetch (URL_toString url) (request_init this ''POST'' ?data), ClearTimeout, ReadJson])"
    by (simp add: call_def)
  from media_upload_after_first_step [OF this assms(5-9), of "file"] assms(10)
  show ?thesis by simp
qed

theorem upload_ignores_put_status_witness:
  "\<not> response_ok \<lparr>response_status = 403, response_json = Rejected (JsError ''SyntaxError'' ''<Error>'')\<rparr>
   \<and> fst (media_upload
          (storage
             \<lparr>response_status = 200,
              response_json = Fulfilled
                (Obj [(''data'', Obj [(''uploadUrl'', Str ''https://bucket.example/put/m.jpg''),
                                      (''mediaUrl'', Str ''https://cdn.example/m.jpg''),
                                      (''expiresIn'', Num 3600)])])\<rparr>
             \<lparr>response_status = 403, response_json = Rejected (JsError ''SyntaxError'' ''<Error>'')\<rparr>)
          client ''bytes'' ''m.jpg'' ''image/jpeg'') =
       Fulfilled (Str ''https://cdn.example/m.jpg'')"
proof -
  let ?d = "Obj [(''uploadUrl'', Str ''https://bucket.example/put/m.jpg''),
                 (''mediaUrl'', Str ''https://cdn.example/m.jpg''), (''expiresIn'', Num 3600)]"
  let ?j = "Obj [(''data'', ?d)]"
  let ?api = "\<lparr>response_status = 200, response_json = Fulfilled ?j\<rparr>"
  let ?put = "\<lparr>response_status = 403, response_json = Rejected (JsError ''SyntaxError'' ''<Error>'')\<rparr>"
  let ?P = "storage ?api ?put"
  let ?data = "Obj [(''filename'', Str ''m.jpg''), (''contentType'', Str ''image/jpeg'')]"
  let ?u = "\<lparr>location = ''https://api.schedulifyx.com/media/upload-url'', searchParams = []\<rparr>"
  have u: "request_url ?P client ''/media/upload-url'' None = Some ?u"
    by (simp add: request_url_def storage_def example_new_URL_def parse_query_def client_fields)
  have f: "fetch ?P (URL_toString ?u) (request_init client ''POST'' ?data) = Fulfilled ?api"
    by (simp add: storage_def request_init_def)
  have k: "response_ok ?api"
    by (simp add: response_ok_def)
  have b: "response_json ?api = Fulfilled ?j"
    by simp
  have j: "?j \<noteq> Null" "?j \<noteq> Undefined" "own_prop ?j ''data'' = ?d" "?d \<noteq> Null" "?d \<noteq> Undefined"
    by simp_all
  have p: "fetch ?P (UrlValue (own_prop ?d ''uploadUrl'')) (put_init ''bytes'' ''image/jpeg'')
             = Fulfilled ?put"
    by (simp add: storage_def put_init_def)
  have n: "\<not> response_ok ?put"
    by (simp add: response_ok_def)
  from n upload_ignores_put_status [OF u f k b j p] show ?thesis by simp
qed

end
